theory Spec2Isabelle
  imports Complex_Main
begin

section \<open>The self-refreshing credential cache of the IDaaS core SDK\<close>

text \<open>
  A shallow embedding of \<^verbatim>\<open>cloud_idaas/core/cache\<close>: \<^verbatim>\<open>RefreshResult\<close>,
  \<^verbatim>\<open>StaleValueBehavior\<close>, the two prefetch strategies and \<^verbatim>\<open>CachedResultSupplier\<close>.

  One thread of control is modelled. Every Python method becomes a function from the
  state before the call to the outcome and the state after it; a raised exception is an
  outcome, and the state changes made before the raise are kept (a \<^verbatim>\<open>finally\<close> block
  runs on both paths).  The callables the code receives from outside (the value producer,
  the clock, \<^verbatim>\<open>random.random\<close>) are sequences of outcomes, indexed by the number of calls
  made so far.  Instants are aware datetimes on one time line, counted in microseconds
  (the resolution of \<^verbatim>\<open>datetime\<close>) from \<^verbatim>\<open>datetime.min\<close>; durations are microsecond counts
  as well.  Arithmetic that leaves the range of \<^verbatim>\<open>datetime\<close> or \<^verbatim>\<open>timedelta\<close> raises
  \<^verbatim>\<open>OverflowError\<close>.
\<close>

subsection \<open>Exceptions, log records, policies\<close>

text \<open>
  \<open>Raised msg\<close> stands for any other instance of \<^verbatim>\<open>Exception\<close> (the tests raise
  \<^verbatim>\<open>Exception("Refresh failed")\<close> and \<^verbatim>\<open>ValueError\<close>).  \<^verbatim>\<open>KeyboardInterrupt\<close> and
  \<^verbatim>\<open>SystemExit\<close> derive from \<^verbatim>\<open>BaseException\<close> only: \<^verbatim>\<open>except Exception\<close> does not
  catch them.
\<close>

datatype exn =
    ConcurrentOperationException
  | CacheException (cause: exn)
  | AttributeError
  | RuntimeError
  | OverflowError
  | Raised string
  | KeyboardInterrupt
  | SystemExit

fun is_Exception :: "exn \<Rightarrow> bool" where
  "is_Exception KeyboardInterrupt = False"
| "is_Exception SystemExit = False"
| "is_Exception e = True"

datatype log_level = ERROR | WARNING | INFO

datatype stale_value_behavior = STRICT | ALLOW

type_synonym instant = int

subsection \<open>RefreshResult\<close>

text \<open>The field \<^verbatim>\<open>value\<close> is \<open>rvalue\<close> here; the two times are optional, as in the source.\<close>

record 'a refresh_result =
  rvalue :: 'a
  stale_time :: "instant option"
  prefetch_time :: "instant option"

subsection \<open>State outside the supplier instance\<close>

text \<open>
  The process-wide state: the log, the flag of the \<^verbatim>\<open>OneCallerBlocksPrefetchStrategy\<close>
  instance, the flag of the \<^verbatim>\<open>NonBlockingPrefetchStrategy\<close> instance with the class-level
  semaphore and executor, and the module-level bindings of \<^verbatim>\<open>cached_result_supplier\<close>
  (\<^verbatim>\<open>JITTER_START\<close>, \<^verbatim>\<open>JITTER_RANGE\<close>, which the tests rebind, the random source and the
  wall clock).  A callable handed to the executor is held in the queue by name (type
  \<open>'t\<close>): it runs later, on the worker thread.
\<close>

record 't process =
  logged :: "(log_level \<times> string) list"
  currently_refreshing :: bool
  currently_prefetching :: bool
  concurrent_refresh_lease :: nat
  executor_shutdown :: bool
  executor_queue :: "'t list"
  jitter_start :: int
  jitter_range :: int
  random_values :: "nat \<Rightarrow> real"
  random_calls :: nat
  wall_clock :: "nat \<Rightarrow> instant"

definition BLOCKING_REFRESH_MAX_WAIT :: int where
  "BLOCKING_REFRESH_MAX_WAIT = 5 * 1000000"

definition JITTER_START :: int where
  "JITTER_START = 5 * 60 * 1000000"

definition JITTER_RANGE :: int where
  "JITTER_RANGE = 5 * 60 * 1000000"

definition MAX_CONCURRENT_REFRESHES :: nat where
  "MAX_CONCURRENT_REFRESHES = 100"

definition log_record :: "log_level \<Rightarrow> string \<Rightarrow> ('t, 'm) process_scheme \<Rightarrow> ('t, 'm) process_scheme" where
  "log_record lvl msg s = s\<lparr>logged := logged s @ [(lvl, msg)]\<rparr>"

subsection \<open>OneCallerBlocksPrefetchStrategy\<close>

text \<open>
  \<^verbatim>\<open>prefetch\<close>: when the flag is clear, set it, run the updater on the calling thread and
  clear the flag in the \<^verbatim>\<open>finally\<close> block; there is no \<^verbatim>\<open>except\<close>, so what the updater
  raises leaves \<^verbatim>\<open>prefetch\<close>.  The updater is any function on the whole state.
\<close>

definition OneCallerBlocks_prefetch ::
  "(('t, 'm) process_scheme \<Rightarrow> exn option \<times> ('t, 'm) process_scheme)
    \<Rightarrow> ('t, 'm) process_scheme \<Rightarrow> exn option \<times> ('t, 'm) process_scheme" where
  "OneCallerBlocks_prefetch value_updater s =
     (if \<not> currently_refreshing s then
        (case value_updater (s\<lparr>currently_refreshing := True\<rparr>) of
           (raised, s') \<Rightarrow> (raised, s'\<lparr>currently_refreshing := False\<rparr>))
      else (None, s))"

definition OneCallerBlocks_close :: "('t, 'm) process_scheme \<Rightarrow> ('t, 'm) process_scheme" where
  "OneCallerBlocks_close s = s\<lparr>currently_refreshing := False\<rparr>"

subsection \<open>NonBlockingPrefetchStrategy\<close>

text \<open>
  \<^verbatim>\<open>Semaphore.acquire(blocking=False)\<close> takes a lease when the counter is positive and
  answers whether it did; \<^verbatim>\<open>release\<close> adds one.  \<^verbatim>\<open>ThreadPoolExecutor.submit\<close> raises
  \<^verbatim>\<open>RuntimeError\<close> after \<^verbatim>\<open>shutdown\<close> and queues the callable otherwise.
\<close>

definition lease_acquire :: "('t, 'm) process_scheme \<Rightarrow> bool \<times> ('t, 'm) process_scheme" where
  "lease_acquire s =
     (if concurrent_refresh_lease s = 0 then (False, s)
      else (True, s\<lparr>concurrent_refresh_lease := concurrent_refresh_lease s - 1\<rparr>))"

definition lease_release :: "('t, 'm) process_scheme \<Rightarrow> ('t, 'm) process_scheme" where
  "lease_release s = s\<lparr>concurrent_refresh_lease := concurrent_refresh_lease s + 1\<rparr>"

definition executor_submit :: "'t \<Rightarrow> ('t, 'm) process_scheme \<Rightarrow> exn option \<times> ('t, 'm) process_scheme" where
  "executor_submit task s =
     (if executor_shutdown s then (Some RuntimeError, s)
      else (None, s\<lparr>executor_queue := executor_queue s @ [task]\<rparr>))"

definition NonBlocking_prefetch ::
  "'t \<Rightarrow> ('t, 'm) process_scheme \<Rightarrow> exn option \<times> ('t, 'm) process_scheme" where
  "NonBlocking_prefetch value_updater s =
     (case lease_acquire s of
        (False, s1) \<Rightarrow>
          (None, log_record WARNING ''Only 100 concurrent refreshes are allowed'' s1)
      | (True, s1) \<Rightarrow>
          (if \<not> currently_prefetching s1 then
             (case executor_submit value_updater (s1\<lparr>currently_prefetching := True\<rparr>) of
                (Some e, s2) \<Rightarrow> (None, lease_release (s2\<lparr>currently_prefetching := False\<rparr>))
              | (None, s2) \<Rightarrow> (None, s2))
           else (None, lease_release s1)))"

text \<open>The task the worker thread runs: the updater, then the cleanup in \<^verbatim>\<open>finally\<close>.\<close>

definition run_with_cleanup ::
  "(('t, 'm) process_scheme \<Rightarrow> exn option \<times> ('t, 'm) process_scheme)
    \<Rightarrow> ('t, 'm) process_scheme \<Rightarrow> exn option \<times> ('t, 'm) process_scheme" where
  "run_with_cleanup value_updater s =
     (case value_updater s of
        (raised, s') \<Rightarrow> (raised, lease_release (s'\<lparr>currently_prefetching := False\<rparr>)))"

definition NonBlocking_close :: "('t, 'm) process_scheme \<Rightarrow> ('t, 'm) process_scheme" where
  "NonBlocking_close s = s\<lparr>currently_prefetching := False\<rparr>"

subsection \<open>CachedResultSupplier\<close>

datatype strategy = OneCallerBlocksPrefetchStrategy | NonBlockingPrefetchStrategy

datatype task = RefreshCache

text \<open>
  The instance: \<open>value_supplier k\<close> is what the \<open>k\<close>-th call of the producer does (raise,
  or return a result), \<open>clock k\<close> what the \<open>k\<close>-th reading of the clock returns (the clock
  always returns an instant).  A producer that returns something that is not a
  \<^verbatim>\<open>RefreshResult\<close> makes the attribute access in the same \<^verbatim>\<open>try\<close> raise
  \<^verbatim>\<open>AttributeError\<close>; that is the outcome \<open>Inl AttributeError\<close>.
  \<open>refresh_lock\<close> is true while another thread holds the lock; \<^verbatim>\<open>acquire(timeout=...)\<close>
  on a held lock is the bounded wait that times out, and on a free lock it takes the lock
  at once.  The constructor \<open>supplier_init\<close> takes the process state it is called in; its
  optional arguments are options, \<^verbatim>\<open>None\<close> standing for an argument left out.
\<close>

record 'a supplier = "task process" +
  value_supplier :: "nat \<Rightarrow> exn + 'a refresh_result"
  supplier_calls :: nat
  prefetch_strategy :: "strategy option"
  clock :: "nat \<Rightarrow> instant"
  clock_calls :: nat
  stale_value_behavior :: stale_value_behavior
  cached_value :: "'a refresh_result option"
  refresh_lock :: bool

definition supplier_init ::
  "task process \<Rightarrow> (nat \<Rightarrow> exn + 'a refresh_result) \<Rightarrow> strategy option
    \<Rightarrow> (nat \<Rightarrow> instant) option \<Rightarrow> stale_value_behavior \<Rightarrow> 'a supplier" where
  "supplier_init p value_supplier' prefetch_strategy' clock' stale_value_behavior' =
     \<lparr>logged = logged p,
      currently_refreshing = currently_refreshing p,
      currently_prefetching = currently_prefetching p,
      concurrent_refresh_lease = concurrent_refresh_lease p,
      executor_shutdown = executor_shutdown p,
      executor_queue = executor_queue p,
      jitter_start = jitter_start p,
      jitter_range = jitter_range p,
      random_values = random_values p,
      random_calls = random_calls p,
      wall_clock = wall_clock p,
      value_supplier = value_supplier',
      supplier_calls = 0,
      prefetch_strategy = prefetch_strategy',
      clock = (case clock' of None \<Rightarrow> wall_clock p | Some c \<Rightarrow> c),
      clock_calls = 0,
      stale_value_behavior = stale_value_behavior',
      cached_value = None,
      refresh_lock = False\<rparr>"

definition call_clock :: "'a supplier \<Rightarrow> instant \<times> 'a supplier" where
  "call_clock s = (clock s (clock_calls s), s\<lparr>clock_calls := Suc (clock_calls s)\<rparr>)"

definition call_value_supplier :: "'a supplier \<Rightarrow> (exn + 'a refresh_result) \<times> 'a supplier" where
  "call_value_supplier s =
     (value_supplier s (supplier_calls s), s\<lparr>supplier_calls := Suc (supplier_calls s)\<rparr>)"

definition cache_is_stale :: "'a refresh_result option \<Rightarrow> 'a supplier \<Rightarrow> bool \<times> 'a supplier" where
  "cache_is_stale refresh_result s =
     (case refresh_result of
        None \<Rightarrow> (True, s)
      | Some r \<Rightarrow>
          (case stale_time r of
             None \<Rightarrow> (False, s)
           | Some st \<Rightarrow> (case call_clock s of (now, s') \<Rightarrow> (now > st, s'))))"

definition should_initiate_cache_prefetch ::
  "'a refresh_result option \<Rightarrow> 'a supplier \<Rightarrow> bool \<times> 'a supplier" where
  "should_initiate_cache_prefetch refresh_result s =
     (case refresh_result of
        None \<Rightarrow> (False, s)
      | Some r \<Rightarrow>
          (case prefetch_time r of
             None \<Rightarrow> (False, s)
           | Some pt \<Rightarrow> (case call_clock s of (now, s') \<Rightarrow> (now > pt, s'))))"

text \<open>
  \<^verbatim>\<open>timedelta.total_seconds()\<close> and \<^verbatim>\<open>timedelta(seconds=x)\<close>; the latter rounds to the
  nearest microsecond, ties to even, and raises \<^verbatim>\<open>OverflowError\<close> outside
  \<^verbatim>\<open>timedelta.min\<close> .. \<^verbatim>\<open>timedelta.max\<close>.  The float product is taken as the exact
  product.  \<^verbatim>\<open>datetime + timedelta\<close> raises \<^verbatim>\<open>OverflowError\<close> when the sum is outside
  \<^verbatim>\<open>datetime.min\<close> .. \<^verbatim>\<open>datetime.max\<close> (year 1 to year 9999).
\<close>

definition DATETIME_MIN :: instant where
  "DATETIME_MIN = 0"

definition DATETIME_MAX :: instant where
  "DATETIME_MAX = 315537897599999999"

definition TIMEDELTA_MIN :: int where
  "TIMEDELTA_MIN = - 86399999913600000000"

definition TIMEDELTA_MAX :: int where
  "TIMEDELTA_MAX = 86399999999999999999"

definition datetime_add :: "instant \<Rightarrow> int \<Rightarrow> exn + instant" where
  "datetime_add t d =
     (if DATETIME_MIN \<le> t + d \<and> t + d \<le> DATETIME_MAX then Inr (t + d)
      else Inl OverflowError)"

definition total_seconds :: "int \<Rightarrow> real" where
  "total_seconds d = of_int d / 1000000"

definition round_half_even :: "real \<Rightarrow> int" where
  "round_half_even x =
     (let f = \<lfloor>x\<rfloor>; d = x - of_int f
      in if d < 1 / 2 then f
         else if 1 / 2 < d then f + 1
         else if even f then f else f + 1)"

definition timedelta_seconds :: "real \<Rightarrow> exn + int" where
  "timedelta_seconds x =
     (let us = round_half_even (x * 1000000)
      in if TIMEDELTA_MIN \<le> us \<and> us \<le> TIMEDELTA_MAX then Inr us else Inl OverflowError)"

text \<open>
  \<^verbatim>\<open>_jitter_time\<close>: the random number is drawn first; then
  \<^verbatim>\<open>time + JITTER_START + timedelta(seconds=jitter_amount)\<close> is evaluated from the left, and
  each of its three steps may raise.
\<close>

definition jitter_time :: "instant \<Rightarrow> 'a supplier \<Rightarrow> (exn + instant) \<times> 'a supplier" where
  "jitter_time time s =
     (let jitter_seconds = total_seconds (jitter_range s)
      in if jitter_seconds \<le> 0 then (Inr time, s)
         else
           (let jitter_amount = \<bar>random_values s (random_calls s) * jitter_seconds\<bar>;
                s' = s\<lparr>random_calls := Suc (random_calls s)\<rparr>
            in case datetime_add time (jitter_start s) of
                 Inl e \<Rightarrow> (Inl e, s')
               | Inr t1 \<Rightarrow>
                   (case timedelta_seconds jitter_amount of
                      Inl e \<Rightarrow> (Inl e, s')
                    | Inr d \<Rightarrow> (datetime_add t1 d, s'))))"

text \<open>
  \<^verbatim>\<open>_handle_fetched_success\<close>: the stale time is jittered first, then the prefetch time;
  a raise of either leaves the method before the cached snapshot is replaced.
\<close>

definition jitter_optional ::
  "instant option \<Rightarrow> 'a supplier \<Rightarrow> (exn + instant option) \<times> 'a supplier" where
  "jitter_optional time s =
     (case time of
        None \<Rightarrow> (Inr None, s)
      | Some t \<Rightarrow>
          (case jitter_time t s of
             (Inl e, s') \<Rightarrow> (Inl e, s')
           | (Inr t', s') \<Rightarrow> (Inr (Some t'), s')))"

definition handle_fetched_success ::
  "'a refresh_result \<Rightarrow> 'a supplier \<Rightarrow> exn option \<times> 'a supplier" where
  "handle_fetched_success refreshed_value s =
     (case jitter_optional (stale_time refreshed_value) s of
        (Inl e, s1) \<Rightarrow> (Some e, s1)
      | (Inr stale_time', s1) \<Rightarrow>
          (case jitter_optional (prefetch_time refreshed_value) s1 of
             (Inl e, s2) \<Rightarrow> (Some e, s2)
           | (Inr prefetch_time', s2) \<Rightarrow>
               (None,
                s2\<lparr>cached_value :=
                     Some \<lparr>rvalue = rvalue refreshed_value,
                           stale_time = stale_time',
                           prefetch_time = prefetch_time'\<rparr>\<rparr>)))"

definition handle_fetch_failure :: "exn \<Rightarrow> 'a supplier \<Rightarrow> exn option \<times> 'a supplier" where
  "handle_fetch_failure exception s =
     (if stale_value_behavior s = STRICT then (Some (CacheException exception), s)
      else (None, log_record INFO ''Failed to refresh cache, using the old value'' s))"

text \<open>
  The body of the inner \<^verbatim>\<open>try\<close> of \<^verbatim>\<open>_refresh_cache\<close>: the producer is called and, when
  it returns, the new value is handled; what either raises leaves the body.
\<close>

definition fetch :: "'a supplier \<Rightarrow> exn option \<times> 'a supplier" where
  "fetch s =
     (case call_value_supplier s of
        (Inl e, s') \<Rightarrow> (Some e, s')
      | (Inr refreshed_value, s') \<Rightarrow> handle_fetched_success refreshed_value s')"

text \<open>
  \<^verbatim>\<open>_refresh_cache\<close>: \<^verbatim>\<open>except Exception\<close> sends an instance of \<^verbatim>\<open>Exception\<close> raised in
  the body to \<^verbatim>\<open>_handle_fetch_failure\<close>; any other exception passes.  The \<^verbatim>\<open>finally\<close>
  block releases the lock on every path on which it was acquired.
\<close>

definition refresh_cache :: "'a supplier \<Rightarrow> exn option \<times> 'a supplier" where
  "refresh_cache s =
     (if refresh_lock s then
        (None, log_record ERROR ''Failed to acquire refresh lock'' s)
      else
        (let s1 = s\<lparr>refresh_lock := True\<rparr>
         in case cache_is_stale (cached_value s1) s1 of
              (False, s2) \<Rightarrow> (None, s2\<lparr>refresh_lock := False\<rparr>)
            | (True, s2) \<Rightarrow>
                (case fetch s2 of
                   (None, s3) \<Rightarrow> (None, s3\<lparr>refresh_lock := False\<rparr>)
                 | (Some e, s3) \<Rightarrow>
                     (if is_Exception e then
                        (case handle_fetch_failure e s3 of
                           (raised, s4) \<Rightarrow> (raised, s4\<lparr>refresh_lock := False\<rparr>))
                      else (Some e, s3\<lparr>refresh_lock := False\<rparr>)))))"

text \<open>
  \<^verbatim>\<open>self._prefetch_strategy.prefetch(self._refresh_cache)\<close>: the attribute lookup on
  \<^verbatim>\<open>None\<close> raises \<^verbatim>\<open>AttributeError\<close>; the blocking strategy receives the refresh routine
  itself, the non-blocking one queues it.
\<close>

definition prefetch_dispatch :: "'a supplier \<Rightarrow> exn option \<times> 'a supplier" where
  "prefetch_dispatch s =
     (case prefetch_strategy s of
        None \<Rightarrow> (Some AttributeError, s)
      | Some OneCallerBlocksPrefetchStrategy \<Rightarrow> OneCallerBlocks_prefetch refresh_cache s
      | Some NonBlockingPrefetchStrategy \<Rightarrow> NonBlocking_prefetch RefreshCache s)"

definition get :: "'a supplier \<Rightarrow> (exn + 'a) \<times> 'a supplier" where
  "get s =
     (let local_cached_value = cached_value s
      in case (case cache_is_stale local_cached_value s of
                 (True, s1) \<Rightarrow>
                   (case refresh_cache s1 of
                      (raised, s2) \<Rightarrow> (raised, cached_value s2, s2))
               | (False, s1) \<Rightarrow> (None, local_cached_value, s1)) of
           (Some e, _, s2) \<Rightarrow> (Inl e, s2)
         | (None, None, s2) \<Rightarrow> (Inl ConcurrentOperationException, s2)
         | (None, Some v, s2) \<Rightarrow>
             (case should_initiate_cache_prefetch (Some v) s2 of
                (True, s3) \<Rightarrow>
                  (case prefetch_dispatch s3 of
                     (Some e, s4) \<Rightarrow> (Inl e, s4)
                   | (None, s4) \<Rightarrow> (Inr (rvalue v), s4))
              | (False, s3) \<Rightarrow> (Inr (rvalue v), s3)))"

subsection \<open>Fixtures\<close>

text \<open>
  The state of the freshly imported modules: nothing logged, flags clear, all
  \<^verbatim>\<open>MAX_CONCURRENT_REFRESHES\<close> leases free, the executor running with an empty queue, the
  jitter constants as the module binds them.
\<close>

definition idle_process :: "task process" where
  "idle_process =
     \<lparr>logged = [], currently_refreshing = False, currently_prefetching = False,
      concurrent_refresh_lease = MAX_CONCURRENT_REFRESHES, executor_shutdown = False,
      executor_queue = [], jitter_start = JITTER_START, jitter_range = JITTER_RANGE,
      random_values = (\<lambda>k. 1 / 2), random_calls = 0, wall_clock = (\<lambda>k. 0)\<rparr>"

text \<open>The updater and the producer of the tests that raise on every call.\<close>

definition failing_updater :: "task process \<Rightarrow> exn option \<times> task process" where
  "failing_updater s = (Some (Raised ''Test exception''), s)"

definition failing_supplier :: "nat \<Rightarrow> exn + string refresh_result" where
  "failing_supplier k = Inl (Raised ''Refresh failed'')"

text \<open>
  A supplier whose cache was set to a snapshot that went stale at 10 s (prefetch at 5 s),
  read at 11 s, with the failing producer.
\<close>

definition old_snapshot :: "string refresh_result" where
  "old_snapshot = \<lparr>rvalue = ''old_value'', stale_time = Some 10000000, prefetch_time = Some 5000000\<rparr>"

definition late_clock :: "nat \<Rightarrow> instant" where
  "late_clock k = 11000000"

definition stale_supplier :: "stale_value_behavior \<Rightarrow> strategy option \<Rightarrow> string supplier" where
  "stale_supplier policy strat =
     (supplier_init idle_process failing_supplier strat (Some late_clock) policy)
       \<lparr>cached_value := Some old_snapshot\<rparr>"

text \<open>
  The scenario of the specification: jitter disabled, the producer returns
  \<open>(v1, stale = 10 s, prefetch = 5 s)\<close> on its first call and \<open>v2\<close> afterwards; the clock
  reads 0 s on its first reading and 6 s from then on.
\<close>

definition scenario_producer :: "nat \<Rightarrow> exn + string refresh_result" where
  "scenario_producer k =
     (if k = 0
      then Inr \<lparr>rvalue = ''v1'', stale_time = Some 10000000, prefetch_time = Some 5000000\<rparr>
      else Inr \<lparr>rvalue = ''v2'', stale_time = Some 20000000, prefetch_time = Some 15000000\<rparr>)"

definition scenario_clock :: "nat \<Rightarrow> instant" where
  "scenario_clock k = (if k = 0 then 0 else 6000000)"

definition scenario_supplier :: "strategy option \<Rightarrow> string supplier" where
  "scenario_supplier strat =
     supplier_init (idle_process\<lparr>jitter_range := 0\<rparr>) scenario_producer strat
       (Some scenario_clock) ALLOW"

text \<open>
  Producers that are interrupted, that fail once and then return, and that return a
  stale time at the end of the range of \<^verbatim>\<open>datetime\<close>.
\<close>

definition interrupted_supplier :: "nat \<Rightarrow> exn + string refresh_result" where
  "interrupted_supplier k = Inl KeyboardInterrupt"

definition flaky_supplier :: "nat \<Rightarrow> exn + string refresh_result" where
  "flaky_supplier k =
     (if k = 0 then Inl (Raised ''Refresh failed'')
      else Inr \<lparr>rvalue = ''new_value'', stale_time = Some 3600000000, prefetch_time = None\<rparr>)"

definition far_supplier :: "nat \<Rightarrow> exn + string refresh_result" where
  "far_supplier k = Inr \<lparr>rvalue = ''v'', stale_time = Some DATETIME_MAX, prefetch_time = None\<rparr>"

text \<open>
  The scenario with a clock that moves on during the second \<^verbatim>\<open>get\<close>: 6 s at its two
  checks, 11 s when the refresh routine, holding the lock, checks again.
\<close>

definition advancing_clock :: "nat \<Rightarrow> instant" where
  "advancing_clock k = (if k = 0 then 0 else if k \<le> 2 then 6000000 else 11000000)"

definition advancing_supplier :: "string supplier" where
  "advancing_supplier =
     supplier_init (idle_process\<lparr>jitter_range := 0\<rparr>) scenario_producer
       (Some OneCallerBlocksPrefetchStrategy) (Some advancing_clock) ALLOW"

section \<open>Properties\<close>

lemmas fixture_defs =
  idle_process_def failing_supplier_def old_snapshot_def late_clock_def stale_supplier_def
  scenario_producer_def scenario_clock_def scenario_supplier_def supplier_init_def
  JITTER_START_def JITTER_RANGE_def MAX_CONCURRENT_REFRESHES_def
  interrupted_supplier_def flaky_supplier_def far_supplier_def advancing_clock_def
  advancing_supplier_def

lemmas strategy_defs =
  OneCallerBlocks_prefetch_def NonBlocking_prefetch_def lease_acquire_def lease_release_def
  executor_submit_def log_record_def

lemmas datetime_defs =
  datetime_add_def DATETIME_MIN_def DATETIME_MAX_def TIMEDELTA_MIN_def TIMEDELTA_MAX_def

lemmas supplier_defs =
  get_def cache_is_stale_def should_initiate_cache_prefetch_def refresh_cache_def fetch_def
  call_clock_def call_value_supplier_def handle_fetch_failure_def handle_fetched_success_def
  jitter_optional_def prefetch_dispatch_def jitter_time_def total_seconds_def
  timedelta_seconds_def round_half_even_def datetime_defs

subsection \<open>Rounding to microseconds\<close>

lemma round_half_even_cases:
  "round_half_even x = \<lfloor>x\<rfloor> \<or> round_half_even x = \<lfloor>x\<rfloor> + 1"
  by (simp add: round_half_even_def Let_def)

lemma round_half_even_of_int: "round_half_even (of_int n) = n"
  by (simp add: round_half_even_def Let_def)

lemma round_half_even_nonneg: "0 \<le> x \<Longrightarrow> 0 \<le> round_half_even x"
  using round_half_even_cases [of x] by (auto simp: zero_le_floor)

lemma round_half_even_le:
  assumes "x \<le> of_int n"
  shows "round_half_even x \<le> n"
proof (cases "x = of_int n")
  case True
  then show ?thesis by (simp add: round_half_even_of_int)
next
  case False
  with assms have "x < of_int n" by simp
  then have "\<lfloor>x\<rfloor> < n" by (simp add: floor_less_iff)
  then show ?thesis using round_half_even_cases [of x] by auto
qed

lemma jitter_amount_bounds:
  assumes "0 < d"
  shows "0 \<le> round_half_even (\<bar>r * total_seconds d\<bar> * 1000000)"
    and "\<bar>r\<bar> \<le> 1 \<Longrightarrow> round_half_even (\<bar>r * total_seconds d\<bar> * 1000000) \<le> d"
proof -
  have eq: "\<bar>r * total_seconds d\<bar> * 1000000 = \<bar>r\<bar> * of_int d"
    using assms by (simp add: total_seconds_def abs_mult)
  show "0 \<le> round_half_even (\<bar>r * total_seconds d\<bar> * 1000000)"
    by (rule round_half_even_nonneg) simp
  assume "\<bar>r\<bar> \<le> 1"
  then have "\<bar>r\<bar> * of_int d \<le> of_int d"
    using assms by (simp add: mult_left_le_one_le)
  then show "round_half_even (\<bar>r * total_seconds d\<bar> * 1000000) \<le> d"
    unfolding eq by (rule round_half_even_le)
qed

lemma timedelta_seconds_cases:
  "timedelta_seconds x = Inr (round_half_even (x * 1000000)) \<or>
   timedelta_seconds x = Inl OverflowError"
  by (simp add: timedelta_seconds_def Let_def)

lemma datetime_add_cases:
  "datetime_add t d = Inr (t + d) \<and> DATETIME_MIN \<le> t + d \<and> t + d \<le> DATETIME_MAX \<or>
   datetime_add t d = Inl OverflowError"
  by (simp add: datetime_add_def)

subsection \<open>The jitter transform\<close>

text \<open>
  What \<^verbatim>\<open>_jitter_time\<close> does with a positive \<^verbatim>\<open>JITTER_RANGE\<close>: it draws one random number
  and either raises \<^verbatim>\<open>OverflowError\<close> or returns \<open>T + JITTER_START + d\<close>, where \<open>d\<close> is the
  jitter amount rounded to microseconds.
\<close>

lemma jitter_time_positive:
  assumes "0 < jitter_range s"
  shows "jitter_time T s = (Inl OverflowError, s\<lparr>random_calls := Suc (random_calls s)\<rparr>) \<or>
         jitter_time T s =
           (Inr (T + jitter_start s
                 + round_half_even
                     (\<bar>random_values s (random_calls s) * total_seconds (jitter_range s)\<bar>
                      * 1000000)),
            s\<lparr>random_calls := Suc (random_calls s)\<rparr>)"
proof -
  have pos: "\<not> total_seconds (jitter_range s) \<le> 0"
    using assms by (simp add: total_seconds_def)
  show ?thesis
    using datetime_add_cases [of T "jitter_start s"]
      timedelta_seconds_cases
        [of "\<bar>random_values s (random_calls s) * total_seconds (jitter_range s)\<bar>"]
      datetime_add_cases [of "T + jitter_start s"
        "round_half_even
           (\<bar>random_values s (random_calls s) * total_seconds (jitter_range s)\<bar> * 1000000)"]
    by (auto simp: jitter_time_def Let_def pos)
qed

lemma jitter_time_returns:
  assumes "0 < jitter_range s" and "jitter_range s \<le> TIMEDELTA_MAX"
    and "\<bar>random_values s (random_calls s)\<bar> \<le> 1"
    and "DATETIME_MIN \<le> T + jitter_start s"
    and "T + jitter_start s + jitter_range s \<le> DATETIME_MAX"
  shows "\<exists>t. fst (jitter_time T s) = Inr t"
proof -
  let ?d = "round_half_even
     (\<bar>random_values s (random_calls s) * total_seconds (jitter_range s)\<bar> * 1000000)"
  have pos: "\<not> total_seconds (jitter_range s) \<le> 0"
    using assms(1) by (simp add: total_seconds_def)
  have d: "0 \<le> ?d" "?d \<le> jitter_range s"
    using jitter_amount_bounds [OF assms(1)] assms(3) by simp_all
  have "TIMEDELTA_MIN \<le> ?d"
    using d(1) by (simp add: TIMEDELTA_MIN_def)
  with d assms show ?thesis
    by (simp add: jitter_time_def Let_def pos datetime_add_def timedelta_seconds_def)
qed

text \<open>
  C7.  With \<^verbatim>\<open>JITTER_RANGE\<close> at most zero the jitter transform returns the instant it was
  given (and draws no random number).  With a positive \<^verbatim>\<open>JITTER_RANGE\<close> every time it
  returns is at least \<open>T + JITTER_START\<close>, for every value of the random component, and at
  most \<open>T + JITTER_START + JITTER_RANGE\<close> for every random component of magnitude at most
  one (\<^verbatim>\<open>random.random()\<close> lies in \<open>[0, 1)\<close>).  With \<^verbatim>\<open>JITTER_START\<close> not negative, as the
  module binds it, the result is never earlier than \<open>T\<close>.  It returns a time whenever the
  interval from \<open>T + JITTER_START\<close> to \<open>T + JITTER_START + JITTER_RANGE\<close> lies within the
  range of \<^verbatim>\<open>datetime\<close>; otherwise it may raise, and then it raises \<^verbatim>\<open>OverflowError\<close>.
\<close>

theorem jitter_time_bounds:
  "(jitter_range s \<le> 0 \<longrightarrow> jitter_time T s = (Inr T, s)) \<and>
   (0 < jitter_range s \<longrightarrow>
      (\<forall>t. fst (jitter_time T s) = Inr t \<longrightarrow>
         T + jitter_start s \<le> t \<and>
         (\<bar>random_values s (random_calls s)\<bar> \<le> 1 \<longrightarrow>
            t \<le> T + jitter_start s + jitter_range s))) \<and>
   (0 \<le> jitter_start s \<longrightarrow> (\<forall>t. fst (jitter_time T s) = Inr t \<longrightarrow> T \<le> t)) \<and>
   (0 < jitter_range s \<and> jitter_range s \<le> TIMEDELTA_MAX \<and>
    \<bar>random_values s (random_calls s)\<bar> \<le> 1 \<and>
    DATETIME_MIN \<le> T + jitter_start s \<and> T + jitter_start s + jitter_range s \<le> DATETIME_MAX
      \<longrightarrow> (\<exists>t. fst (jitter_time T s) = Inr t)) \<and>
   (\<forall>e. fst (jitter_time T s) = Inl e \<longrightarrow> e = OverflowError)"
proof (cases "0 < jitter_range s")
  case True
  show ?thesis
    using True jitter_time_positive [OF True, of T]
      jitter_amount_bounds [OF True, of "random_values s (random_calls s)"]
      jitter_time_returns [of s T]
    by auto
next
  case False
  then have "total_seconds (jitter_range s) \<le> 0"
    by (simp add: total_seconds_def divide_le_0_iff)
  then have "jitter_time T s = (Inr T, s)"
    by (simp add: jitter_time_def Let_def)
  with False show ?thesis by simp
qed

theorem jitter_time_bounds_witness:
  "jitter_range (scenario_supplier None) \<le> 0 \<and>
   fst (jitter_time 3600000000 (scenario_supplier None)) = Inr 3600000000 \<and>
   0 < jitter_range (stale_supplier ALLOW None) \<and>
   jitter_range (stale_supplier ALLOW None) \<le> TIMEDELTA_MAX \<and>
   0 \<le> jitter_start (stale_supplier ALLOW None) \<and>
   \<bar>random_values (stale_supplier ALLOW None) (random_calls (stale_supplier ALLOW None))\<bar> \<le> 1 \<and>
   DATETIME_MIN \<le> 3600000000 + jitter_start (stale_supplier ALLOW None) \<and>
   3600000000 + jitter_start (stale_supplier ALLOW None) + jitter_range (stale_supplier ALLOW None)
     \<le> DATETIME_MAX \<and>
   fst (jitter_time 3600000000 (stale_supplier ALLOW None)) = Inr 4050000000 \<and>
   3600000000 + JITTER_START \<le> (4050000000 :: int) \<and>
   (4050000000 :: int) \<le> 3600000000 + JITTER_START + JITTER_RANGE \<and>
   fst (jitter_time DATETIME_MAX (stale_supplier ALLOW None)) = Inl OverflowError"
  using jitter_time_bounds [of "scenario_supplier None" 3600000000]
    jitter_time_bounds [of "stale_supplier ALLOW None" 3600000000]
    jitter_time_bounds [of "stale_supplier ALLOW None" DATETIME_MAX]
  by (simp add: fixture_defs jitter_time_def total_seconds_def timedelta_seconds_def
      round_half_even_def datetime_defs)

subsection \<open>The prefetch strategies\<close>

text \<open>
  C9.  \<^verbatim>\<open>OneCallerBlocksPrefetchStrategy.prefetch\<close>: with the flag set at entry it returns
  at once and the updater is not run (the state is untouched).  With the flag clear, the
  updater runs exactly once, on the state in which the flag is set; what it returns or
  raises is the outcome of \<^verbatim>\<open>prefetch\<close>, and the flag is clear afterwards on both paths.
\<close>

theorem OneCallerBlocks_prefetch_flag:
  "(currently_refreshing s \<longrightarrow> OneCallerBlocks_prefetch u s = (None, s)) \<and>
   (\<not> currently_refreshing s \<longrightarrow>
      OneCallerBlocks_prefetch u s =
        (fst (u (s\<lparr>currently_refreshing := True\<rparr>)),
         (snd (u (s\<lparr>currently_refreshing := True\<rparr>)))\<lparr>currently_refreshing := False\<rparr>) \<and>
      \<not> currently_refreshing (snd (OneCallerBlocks_prefetch u s)))"
  by (simp add: OneCallerBlocks_prefetch_def case_prod_unfold)

text \<open>
  At a supplier that holds a stale snapshot, the refresh routine as updater calls the
  producer once; with the flag set at entry the producer is not called.  With the raising
  updater the exception leaves \<^verbatim>\<open>prefetch\<close> and the flag is clear.
\<close>

theorem OneCallerBlocks_prefetch_flag_witness:
  "\<not> currently_refreshing (stale_supplier ALLOW None) \<and>
   supplier_calls (snd (OneCallerBlocks_prefetch refresh_cache (stale_supplier ALLOW None))) = 1 \<and>
   \<not> currently_refreshing (snd (OneCallerBlocks_prefetch refresh_cache (stale_supplier ALLOW None))) \<and>
   currently_refreshing ((stale_supplier ALLOW None)\<lparr>currently_refreshing := True\<rparr>) \<and>
   supplier_calls (snd (OneCallerBlocks_prefetch refresh_cache
      ((stale_supplier ALLOW None)\<lparr>currently_refreshing := True\<rparr>))) = 0 \<and>
   fst (OneCallerBlocks_prefetch failing_updater idle_process) = Some (Raised ''Test exception'') \<and>
   \<not> currently_refreshing (snd (OneCallerBlocks_prefetch failing_updater idle_process))"
  using OneCallerBlocks_prefetch_flag [of "stale_supplier ALLOW None" refresh_cache]
    OneCallerBlocks_prefetch_flag
      [of "(stale_supplier ALLOW None)\<lparr>currently_refreshing := True\<rparr>" refresh_cache]
    OneCallerBlocks_prefetch_flag [of idle_process failing_updater]
  by (simp add: fixture_defs supplier_defs log_record_def failing_updater_def)

text \<open>
  C8.  \<^verbatim>\<open>NonBlockingPrefetchStrategy.prefetch\<close>: with no lease left in the shared semaphore
  it returns after logging a warning; nothing is queued, the flag and the semaphore are as
  before, and no updater runs.  With a lease available and the instance's flag already
  set, it returns with the state exactly as at entry: the lease it took is back in the
  semaphore and nothing is queued.
\<close>

theorem NonBlocking_prefetch_skips:
  "(concurrent_refresh_lease s = 0 \<longrightarrow>
      NonBlocking_prefetch u s =
        (None, s\<lparr>logged := logged s @ [(WARNING, ''Only 100 concurrent refreshes are allowed'')]\<rparr>)) \<and>
   (0 < concurrent_refresh_lease s \<and> currently_prefetching s \<longrightarrow>
      NonBlocking_prefetch u s = (None, s))"
  by (simp add: strategy_defs)

theorem NonBlocking_prefetch_skips_witness:
  "concurrent_refresh_lease (idle_process\<lparr>concurrent_refresh_lease := 0\<rparr>) = 0 \<and>
   executor_queue (snd (NonBlocking_prefetch RefreshCache
      (idle_process\<lparr>concurrent_refresh_lease := 0\<rparr>))) = [] \<and>
   0 < concurrent_refresh_lease (idle_process\<lparr>currently_prefetching := True\<rparr>) \<and>
   currently_prefetching (idle_process\<lparr>currently_prefetching := True\<rparr>) \<and>
   concurrent_refresh_lease (snd (NonBlocking_prefetch RefreshCache
      (idle_process\<lparr>currently_prefetching := True\<rparr>))) = 100 \<and>
   executor_queue (snd (NonBlocking_prefetch RefreshCache
      (idle_process\<lparr>currently_prefetching := True\<rparr>))) = []"
  using NonBlocking_prefetch_skips [of "idle_process\<lparr>concurrent_refresh_lease := 0\<rparr>" RefreshCache]
    NonBlocking_prefetch_skips [of "idle_process\<lparr>currently_prefetching := True\<rparr>" RefreshCache]
  by (simp add: fixture_defs)

text \<open>
  C5, as the code has it.  \<^verbatim>\<open>NonBlockingPrefetchStrategy.prefetch\<close> never raises, whatever
  the updater and the state (a rejected submission is caught).
  \<^verbatim>\<open>OneCallerBlocksPrefetchStrategy.prefetch\<close> raises exactly what the updater raises when
  it runs it, and nothing when the flag was set at entry.
\<close>

theorem prefetch_raises:
  "fst (NonBlocking_prefetch t s) = None \<and>
   fst (OneCallerBlocks_prefetch u s) =
     (if currently_refreshing s then None else fst (u (s\<lparr>currently_refreshing := True\<rparr>)))"
  by (simp add: strategy_defs case_prod_unfold split: option.splits)

theorem prefetch_raises_witness:
  "fst (NonBlocking_prefetch RefreshCache (idle_process\<lparr>executor_shutdown := True\<rparr>)) = None \<and>
   fst (OneCallerBlocks_prefetch failing_updater (idle_process\<lparr>currently_refreshing := True\<rparr>))
     = None"
  using prefetch_raises
    [of RefreshCache "idle_process\<lparr>executor_shutdown := True\<rparr>" failing_updater]
    prefetch_raises
    [of RefreshCache "idle_process\<lparr>currently_refreshing := True\<rparr>" failing_updater]
  by (simp add: fixture_defs)

text \<open>
  The updater of the strategy's own test raises \<^verbatim>\<open>ValueError\<close>; \<^verbatim>\<open>prefetch\<close> of the blocking
  strategy, called with the flag clear, raises it to its caller.
\<close>

theorem prefetch_raises_counterexample:
  "fst (OneCallerBlocks_prefetch failing_updater idle_process) = Some (Raised ''Test exception'')"
  by (simp add: OneCallerBlocks_prefetch_def failing_updater_def idle_process_def)

subsection \<open>The outcomes of the refresh routine\<close>

lemma jitter_time_cases:
  obtains (overflow) n where "jitter_time T s = (Inl OverflowError, s\<lparr>random_calls := n\<rparr>)"
  | (returns) n t where "jitter_time T s = (Inr t, s\<lparr>random_calls := n\<rparr>)"
proof (cases "0 < jitter_range s")
  case True
  from jitter_time_positive [OF True, of T] show ?thesis
    using that by blast
next
  case False
  then have "total_seconds (jitter_range s) \<le> 0"
    by (simp add: total_seconds_def divide_le_0_iff)
  then have "jitter_time T s = (Inr T, s\<lparr>random_calls := random_calls s\<rparr>)"
    by (simp add: jitter_time_def Let_def)
  then show ?thesis by (rule that(2))
qed

lemma jitter_optional_cases:
  obtains (overflow) n where "jitter_optional time s = (Inl OverflowError, s\<lparr>random_calls := n\<rparr>)"
  | (returns) n t where "jitter_optional time s = (Inr t, s\<lparr>random_calls := n\<rparr>)"
proof (cases time)
  case None
  then have "jitter_optional time s = (Inr None, s\<lparr>random_calls := random_calls s\<rparr>)"
    by (simp add: jitter_optional_def)
  then show ?thesis by (rule that(2))
next
  case (Some T)
  show ?thesis
  proof (cases rule: jitter_time_cases [of T s])
    case (overflow n)
    then have "jitter_optional time s = (Inl OverflowError, s\<lparr>random_calls := n\<rparr>)"
      by (simp add: jitter_optional_def Some)
    then show ?thesis by (rule that(1))
  next
    case (returns n t)
    then have "jitter_optional time s = (Inr (Some t), s\<lparr>random_calls := n\<rparr>)"
      by (simp add: jitter_optional_def Some)
    then show ?thesis by (rule that(2))
  qed
qed

lemma handle_fetched_success_cases:
  obtains (overflow) n where
    "handle_fetched_success rr s = (Some OverflowError, s\<lparr>random_calls := n\<rparr>)"
  | (installed) n v where
    "handle_fetched_success rr s = (None, s\<lparr>random_calls := n, cached_value := Some v\<rparr>)"
proof (cases rule: jitter_optional_cases [of "stale_time rr" s])
  case (overflow n)
  then have "handle_fetched_success rr s = (Some OverflowError, s\<lparr>random_calls := n\<rparr>)"
    by (simp add: handle_fetched_success_def)
  then show ?thesis by (rule that(1))
next
  case stale: (returns n t)
  show ?thesis
  proof (cases rule: jitter_optional_cases [of "prefetch_time rr" "s\<lparr>random_calls := n\<rparr>"])
    case (overflow m)
    with stale have "handle_fetched_success rr s = (Some OverflowError, s\<lparr>random_calls := m\<rparr>)"
      by (simp add: handle_fetched_success_def)
    then show ?thesis by (rule that(1))
  next
    case (returns m t')
    with stale have "handle_fetched_success rr s =
        (None, s\<lparr>random_calls := m,
                cached_value := Some \<lparr>rvalue = rvalue rr, stale_time = t, prefetch_time = t'\<rparr>\<rparr>)"
      by (simp add: handle_fetched_success_def)
    then show ?thesis by (rule that(2))
  qed
qed

lemma fetch_cases:
  obtains (failed) e n where
    "value_supplier s (supplier_calls s) = Inl e \<or>
     e = OverflowError \<and> (\<exists>rr. value_supplier s (supplier_calls s) = Inr rr)"
    "fetch s = (Some e, s\<lparr>supplier_calls := Suc (supplier_calls s), random_calls := n\<rparr>)"
  | (installed) rr n v where
    "value_supplier s (supplier_calls s) = Inr rr"
    "fetch s = (None, s\<lparr>supplier_calls := Suc (supplier_calls s), random_calls := n,
                       cached_value := Some v\<rparr>)"
proof (cases "value_supplier s (supplier_calls s)")
  case (Inl e)
  then have "fetch s =
      (Some e, s\<lparr>supplier_calls := Suc (supplier_calls s), random_calls := random_calls s\<rparr>)"
    by (simp add: fetch_def call_value_supplier_def)
  with Inl show ?thesis by (intro that(1) [where e = e and n = "random_calls s"]) auto
next
  case (Inr rr)
  then have f: "fetch s =
      handle_fetched_success rr (s\<lparr>supplier_calls := Suc (supplier_calls s)\<rparr>)"
    by (simp add: fetch_def call_value_supplier_def)
  show ?thesis
  proof (cases rule: handle_fetched_success_cases
      [of rr "s\<lparr>supplier_calls := Suc (supplier_calls s)\<rparr>"])
    case (overflow n)
    with Inr f show ?thesis by (intro that(1) [where e = OverflowError and n = n]) auto
  next
    case (installed n v)
    with Inr f show ?thesis by (intro that(2) [where rr = rr and n = n and v = v]) auto
  qed
qed

text \<open>
  The four ways \<^verbatim>\<open>_refresh_cache\<close> ends: the lock wait times out; the snapshot is found
  not stale under the lock; the fetch fails (the producer raises \<open>e\<close>, or it returns and
  jittering its times raises \<^verbatim>\<open>OverflowError\<close>); the new snapshot is installed.
\<close>

lemma refresh_cache_cases:
  obtains (timeout)
    "refresh_lock s"
    "refresh_cache s =
       (None, s\<lparr>logged := logged s @ [(ERROR, ''Failed to acquire refresh lock'')]\<rparr>)"
  | (fresh) c where
    "\<not> refresh_lock s" "\<not> fst (cache_is_stale (cached_value s) s)"
    "refresh_cache s = (None, s\<lparr>clock_calls := c\<rparr>)"
  | (failed) e c n l where
    "\<not> refresh_lock s" "fst (cache_is_stale (cached_value s) s)"
    "value_supplier s (supplier_calls s) = Inl e \<or>
     e = OverflowError \<and> (\<exists>rr. value_supplier s (supplier_calls s) = Inr rr)"
    "refresh_cache s =
       (if is_Exception e
        then (if stale_value_behavior s = STRICT then Some (CacheException e) else None)
        else Some e,
        s\<lparr>clock_calls := c, supplier_calls := Suc (supplier_calls s), random_calls := n,
          logged := l\<rparr>)"
  | (installed) rr c n v where
    "\<not> refresh_lock s" "fst (cache_is_stale (cached_value s) s)"
    "value_supplier s (supplier_calls s) = Inr rr"
    "refresh_cache s =
       (None, s\<lparr>clock_calls := c, supplier_calls := Suc (supplier_calls s), random_calls := n,
                cached_value := Some v\<rparr>)"
proof (cases "refresh_lock s")
  case True
  then show ?thesis
    by (intro that(1)) (simp_all add: refresh_cache_def log_record_def)
next
  case False
  let ?s1 = "s\<lparr>refresh_lock := True\<rparr>"
  define b where "b = fst (cache_is_stale (cached_value s) s)"
  define c where "c = clock_calls (snd (cache_is_stale (cached_value s) s))"
  have st: "cache_is_stale (cached_value s) ?s1 = (b, ?s1\<lparr>clock_calls := c\<rparr>)"
    unfolding b_def c_def
    by (simp add: cache_is_stale_def call_clock_def split: option.splits)
  have b: "b = fst (cache_is_stale (cached_value s) s)"
    by (simp add: b_def)
  let ?s2 = "?s1\<lparr>clock_calls := c\<rparr>"
  show ?thesis
  proof (cases b)
    case False
    with \<open>\<not> refresh_lock s\<close> st b show ?thesis
      by (intro that(2) [where c = c]) (simp_all add: refresh_cache_def)
  next
    case True
    show ?thesis
    proof (cases rule: fetch_cases [of ?s2])
      case (failed e n)
      with \<open>\<not> refresh_lock s\<close> st b True show ?thesis
        by (intro that(3) [where e = e and c = c and n = n and l =
              "if is_Exception e \<and> stale_value_behavior s \<noteq> STRICT
               then logged s @ [(INFO, ''Failed to refresh cache, using the old value'')]
               else logged s"])
           (auto simp: refresh_cache_def handle_fetch_failure_def log_record_def)
    next
      case (installed rr n v)
      with \<open>\<not> refresh_lock s\<close> st b True show ?thesis
        by (intro that(4) [where rr = rr and c = c and n = n and v = v]) (auto simp: refresh_cache_def)
    qed
  qed
qed

lemma is_Exception_concurrent: "\<not> is_Exception e \<Longrightarrow> e \<noteq> ConcurrentOperationException"
  by auto

lemma refresh_cache_frame:
  "value_supplier (snd (refresh_cache s)) = value_supplier s \<and>
   stale_value_behavior (snd (refresh_cache s)) = stale_value_behavior s \<and>
   prefetch_strategy (snd (refresh_cache s)) = prefetch_strategy s \<and>
   clock (snd (refresh_cache s)) = clock s \<and>
   refresh_lock (snd (refresh_cache s)) = refresh_lock s"
  by (cases rule: refresh_cache_cases [of s]) simp_all

lemma refresh_cache_supplier_calls_mono:
  "supplier_calls s \<le> supplier_calls (snd (refresh_cache s))"
  by (cases rule: refresh_cache_cases [of s]) simp_all

lemma refresh_cache_not_concurrent:
  "fst (refresh_cache s) \<noteq> Some ConcurrentOperationException"
  by (cases rule: refresh_cache_cases [of s]) (auto dest: is_Exception_concurrent)

lemma refresh_cache_keeps_snapshot:
  "cached_value s \<noteq> None \<Longrightarrow> cached_value (snd (refresh_cache s)) \<noteq> None"
  by (cases rule: refresh_cache_cases [of s]) simp_all

lemma cache_is_stale_supplier_calls [simp]:
  "supplier_calls (snd (cache_is_stale c s)) = supplier_calls s"
  by (simp add: cache_is_stale_def call_clock_def split: option.splits)

lemma should_initiate_cache_prefetch_supplier_calls [simp]:
  "supplier_calls (snd (should_initiate_cache_prefetch c s)) = supplier_calls s"
  by (simp add: should_initiate_cache_prefetch_def call_clock_def split: option.splits)

lemma should_initiate_cache_prefetch_state:
  "snd (should_initiate_cache_prefetch c s) = s \<or>
   snd (should_initiate_cache_prefetch c s) = s\<lparr>clock_calls := Suc (clock_calls s)\<rparr>"
  by (simp add: should_initiate_cache_prefetch_def call_clock_def split: option.splits)

text \<open>
  The prefetch dispatch with a strategy present: the outcome and the producer calls are
  those of the refresh routine, run with the flag set, or nothing happens to either.
\<close>

lemma prefetch_dispatch_cases:
  assumes "prefetch_strategy s \<noteq> None"
  obtains (ran)
    "fst (prefetch_dispatch s) = fst (refresh_cache (s\<lparr>currently_refreshing := True\<rparr>))"
    "supplier_calls (snd (prefetch_dispatch s))
       = supplier_calls (snd (refresh_cache (s\<lparr>currently_refreshing := True\<rparr>)))"
    "cached_value (snd (prefetch_dispatch s))
       = cached_value (snd (refresh_cache (s\<lparr>currently_refreshing := True\<rparr>)))"
  | (skipped)
    "fst (prefetch_dispatch s) = None"
    "supplier_calls (snd (prefetch_dispatch s)) = supplier_calls s"
    "cached_value (snd (prefetch_dispatch s)) = cached_value s"
proof (cases "prefetch_strategy s = Some OneCallerBlocksPrefetchStrategy \<and> \<not> currently_refreshing s")
  case True
  then show ?thesis
    by (intro that(1))
       (simp_all add: prefetch_dispatch_def OneCallerBlocks_prefetch_def case_prod_unfold)
next
  case False
  with assms show ?thesis
    by (intro that(2))
       (auto simp: prefetch_dispatch_def strategy_defs case_prod_unfold
          split: strategy.splits option.splits)
qed

lemma prefetch_dispatch_supplier_calls_mono:
  "supplier_calls s \<le> supplier_calls (snd (prefetch_dispatch s))"
proof (cases "prefetch_strategy s")
  case None
  then show ?thesis by (simp add: prefetch_dispatch_def)
next
  case (Some a)
  then have "prefetch_strategy s \<noteq> None" by simp
  then show ?thesis
    using refresh_cache_supplier_calls_mono [of "s\<lparr>currently_refreshing := True\<rparr>"]
    by (cases rule: prefetch_dispatch_cases [of s]) simp_all
qed

lemma prefetch_dispatch_not_concurrent:
  "fst (prefetch_dispatch s) \<noteq> Some ConcurrentOperationException"
proof (cases "prefetch_strategy s")
  case None
  then show ?thesis by (simp add: prefetch_dispatch_def)
next
  case (Some a)
  then have "prefetch_strategy s \<noteq> None" by simp
  then show ?thesis
    using refresh_cache_not_concurrent [of "s\<lparr>currently_refreshing := True\<rparr>"]
    by (cases rule: prefetch_dispatch_cases [of s]) simp_all
qed

text \<open>The last steps of \<^verbatim>\<open>get\<close>, from the prefetch check on.\<close>

lemma get_tail_supplier_calls_mono:
  "supplier_calls s2 \<le> supplier_calls (snd
     (case should_initiate_cache_prefetch (Some v) s2 of
        (True, s3) \<Rightarrow>
          (case prefetch_dispatch s3 of
             (Some e, s4) \<Rightarrow> (Inl e, s4)
           | (None, s4) \<Rightarrow> (Inr (rvalue v), s4))
      | (False, s3) \<Rightarrow> (Inr (rvalue v), s3)))"
proof -
  obtain b s3 where b: "should_initiate_cache_prefetch (Some v) s2 = (b, s3)"
    by (cases "should_initiate_cache_prefetch (Some v) s2")
  have s3: "supplier_calls s3 = supplier_calls s2"
    using should_initiate_cache_prefetch_supplier_calls [of "Some v" s2] by (simp add: b)
  obtain x s4 where x: "prefetch_dispatch s3 = (x, s4)"
    by (cases "prefetch_dispatch s3")
  have s4: "supplier_calls s3 \<le> supplier_calls s4"
    using prefetch_dispatch_supplier_calls_mono [of s3] by (simp add: x)
  show ?thesis
    using s3 s4 by (cases b; cases x) (simp_all add: b x)
qed

lemma get_tail_not_concurrent:
  "fst (case should_initiate_cache_prefetch (Some v) s2 of
          (True, s3) \<Rightarrow>
            (case prefetch_dispatch s3 of
               (Some e, s4) \<Rightarrow> (Inl e, s4)
             | (None, s4) \<Rightarrow> (Inr (rvalue v), s4))
        | (False, s3) \<Rightarrow> (Inr (rvalue v), s3)) \<noteq> Inl ConcurrentOperationException"
proof -
  obtain b s3 where b: "should_initiate_cache_prefetch (Some v) s2 = (b, s3)"
    by (cases "should_initiate_cache_prefetch (Some v) s2")
  obtain x s4 where x: "prefetch_dispatch s3 = (x, s4)"
    by (cases "prefetch_dispatch s3")
  show ?thesis
    using prefetch_dispatch_not_concurrent [of s3]
    by (cases b; cases x) (simp_all add: b x)
qed

lemma get_supplier_calls_after_refresh:
  assumes "cache_is_stale (cached_value s) s = (True, s1)"
  shows "supplier_calls (snd (refresh_cache s1)) \<le> supplier_calls (snd (get s))"
proof -
  obtain x s2 where x: "refresh_cache s1 = (x, s2)"
    by (cases "refresh_cache s1")
  show ?thesis
  proof (cases x)
    case (Some e)
    then show ?thesis by (simp add: get_def assms x)
  next
    case None
    show ?thesis
    proof (cases "cached_value s2")
      case None
      with \<open>x = None\<close> show ?thesis by (simp add: get_def assms x)
    next
      case (Some v)
      with \<open>x = None\<close> show ?thesis
        using get_tail_supplier_calls_mono [of s2 v]
        by (simp add: get_def assms x)
    qed
  qed
qed

text \<open>
  A \<^verbatim>\<open>get\<close> that finds a stale snapshot and a free lock calls the producer at least once.
\<close>

lemma get_stale_invokes_producer:
  assumes "cached_value s = Some r" "stale_time r = Some st"
    "\<forall>n\<ge>clock_calls s. st < clock s n" "\<not> refresh_lock s"
  shows "supplier_calls s < supplier_calls (snd (get s))"
proof -
  let ?s1 = "s\<lparr>clock_calls := Suc (clock_calls s)\<rparr>"
  have stale: "cache_is_stale (cached_value s) s = (True, ?s1)"
    using assms by (simp add: cache_is_stale_def call_clock_def)
  have again: "fst (cache_is_stale (cached_value ?s1) ?s1)"
    using assms by (simp add: cache_is_stale_def call_clock_def)
  have "supplier_calls (snd (refresh_cache ?s1)) = Suc (supplier_calls s)"
    using assms(4) again by (cases rule: refresh_cache_cases [of ?s1]) simp_all
  then show ?thesis
    using get_supplier_calls_after_refresh [OF stale] by simp
qed

subsection \<open>The lock wait times out\<close>




subsection \<open>Producer failures\<close>

text \<open>
  C3, as the code has it.  Policy \<^verbatim>\<open>STRICT\<close>, a snapshot that is stale at every reading of
  the clock from now on, the lock free, and a producer whose next call raises \<open>e\<close>.  When
  \<open>e\<close> is an instance of \<^verbatim>\<open>Exception\<close>, \<^verbatim>\<open>get\<close> raises \<^verbatim>\<open>CacheException\<close> with cause \<open>e\<close>;
  otherwise (\<^verbatim>\<open>KeyboardInterrupt\<close>, \<^verbatim>\<open>SystemExit\<close>) \<^verbatim>\<open>get\<close> raises \<open>e\<close> itself.  Either way
  the cached snapshot is the one at entry, the lock is free again, the producer was
  called once, and the next \<^verbatim>\<open>get\<close> calls the producer again.
\<close>

theorem get_strict_failure:
  assumes "stale_value_behavior s = STRICT"
    and "cached_value s = Some r" and "stale_time r = Some st"
    and "\<forall>n\<ge>clock_calls s. st < clock s n"
    and "\<not> refresh_lock s"
    and "value_supplier s (supplier_calls s) = Inl e"
  shows "fst (get s) = Inl (if is_Exception e then CacheException e else e) \<and>
         cached_value (snd (get s)) = Some r \<and>
         \<not> refresh_lock (snd (get s)) \<and>
         supplier_calls (snd (get s)) = Suc (supplier_calls s) \<and>
         supplier_calls (snd (get s)) < supplier_calls (snd (get (snd (get s))))"
proof -
  have g: "get s =
      (Inl (if is_Exception e then CacheException e else e),
       s\<lparr>clock_calls := Suc (Suc (clock_calls s)), refresh_lock := True,
         supplier_calls := Suc (supplier_calls s), refresh_lock := False\<rparr>)"
    using assms
    by (simp add: get_def cache_is_stale_def call_clock_def refresh_cache_def fetch_def
        call_value_supplier_def handle_fetch_failure_def Let_def)
  have again: "supplier_calls (snd (get s)) < supplier_calls (snd (get (snd (get s))))"
    by (rule get_stale_invokes_producer [where r = r and st = st]) (use assms in \<open>simp_all add: g\<close>)
  show ?thesis
    using again by (simp add: g assms)
qed

theorem get_strict_failure_witness:
  "stale_value_behavior (stale_supplier STRICT (Some OneCallerBlocksPrefetchStrategy)) = STRICT \<and>
   cached_value (stale_supplier STRICT (Some OneCallerBlocksPrefetchStrategy)) = Some old_snapshot \<and>
   stale_time old_snapshot = Some 10000000 \<and>
   (\<forall>n. 10000000 < clock (stale_supplier STRICT (Some OneCallerBlocksPrefetchStrategy))
      (clock_calls (stale_supplier STRICT (Some OneCallerBlocksPrefetchStrategy)) + n)) \<and>
   \<not> refresh_lock (stale_supplier STRICT (Some OneCallerBlocksPrefetchStrategy)) \<and>
   is_Exception (Raised ''Refresh failed'') \<and>
   fst (get (stale_supplier STRICT (Some OneCallerBlocksPrefetchStrategy)))
     = Inl (CacheException (Raised ''Refresh failed'')) \<and>
   cached_value (snd (get (stale_supplier STRICT (Some OneCallerBlocksPrefetchStrategy))))
     = Some old_snapshot \<and>
   supplier_calls (snd (get (stale_supplier STRICT (Some OneCallerBlocksPrefetchStrategy)))) = 1 \<and>
   1 < supplier_calls
         (snd (get (snd (get (stale_supplier STRICT (Some OneCallerBlocksPrefetchStrategy))))))"
  using get_strict_failure
    [of "stale_supplier STRICT (Some OneCallerBlocksPrefetchStrategy)" old_snapshot 10000000
        "Raised ''Refresh failed''"]
  by (simp add: stale_supplier_def supplier_init_def old_snapshot_def late_clock_def
      failing_supplier_def)

text \<open>
  Policy \<^verbatim>\<open>STRICT\<close>, the stale snapshot, the lock free, and a producer that raises
  \<^verbatim>\<open>KeyboardInterrupt\<close>: \<^verbatim>\<open>get\<close> raises \<^verbatim>\<open>KeyboardInterrupt\<close>, not \<^verbatim>\<open>CacheException\<close>.
\<close>

theorem get_strict_failure_counterexample:
  "stale_value_behavior ((stale_supplier STRICT (Some OneCallerBlocksPrefetchStrategy))
      \<lparr>value_supplier := interrupted_supplier\<rparr>) = STRICT \<and>
   fst (get ((stale_supplier STRICT (Some OneCallerBlocksPrefetchStrategy))
      \<lparr>value_supplier := interrupted_supplier\<rparr>)) = Inl KeyboardInterrupt"
  by (simp add: fixture_defs supplier_defs)

lemma refresh_cache_allow:
  assumes "stale_value_behavior s = ALLOW"
    and "supplier_calls s < supplier_calls (snd (refresh_cache s)) \<longrightarrow>
         (\<exists>e. value_supplier s (supplier_calls s) = Inl e \<and> is_Exception e)"
  shows "fst (refresh_cache s) = None \<and> cached_value (snd (refresh_cache s)) = cached_value s"
  using assms by (cases rule: refresh_cache_cases [of s]) auto

text \<open>
  C4, as the code has it.  Policy \<^verbatim>\<open>ALLOW\<close>, a snapshot that is stale when \<^verbatim>\<open>get\<close> reads
  the clock, either a prefetch strategy configured or no prefetch time on the snapshot,
  and a producer every call of which during this \<^verbatim>\<open>get\<close> raises an instance of
  \<^verbatim>\<open>Exception\<close>: \<^verbatim>\<open>get\<close> raises nothing and returns the value of the snapshot held at
  entry, and that snapshot is still the cached one.  The lock may be free or held, and
  \<^verbatim>\<open>get\<close> may call the producer twice (on the stale path, and again through the blocking
  prefetch).
\<close>

theorem get_allow_failure:
  assumes "stale_value_behavior s = ALLOW"
    and "cached_value s = Some r" and "stale_time r = Some st"
    and "st < clock s (clock_calls s)"
    and "\<forall>k. supplier_calls s \<le> k \<and> k < supplier_calls (snd (get s)) \<longrightarrow>
           (\<exists>e. value_supplier s k = Inl e \<and> is_Exception e)"
    and "prefetch_strategy s \<noteq> None \<or> prefetch_time r = None"
  shows "fst (get s) = Inr (rvalue r) \<and> cached_value (snd (get s)) = Some r"
proof -
  let ?s1 = "s\<lparr>clock_calls := Suc (clock_calls s)\<rparr>"
  have stale: "cache_is_stale (Some r) s = (True, ?s1)"
    using assms by (simp add: cache_is_stale_def call_clock_def)
  obtain x s2 where r2: "refresh_cache ?s1 = (x, s2)"
    by (cases "refresh_cache ?s1")
  have final: "supplier_calls s2 \<le> supplier_calls (snd (get s))"
    using get_supplier_calls_after_refresh [of s ?s1] stale by (simp add: assms(2) r2)
  have frame2: "value_supplier s2 = value_supplier s" "stale_value_behavior s2 = ALLOW"
    "prefetch_strategy s2 = prefetch_strategy s" "supplier_calls s \<le> supplier_calls s2"
    using refresh_cache_frame [of ?s1] refresh_cache_supplier_calls_mono [of ?s1] assms(1)
    by (simp_all add: r2)
  have "supplier_calls ?s1 < supplier_calls (snd (refresh_cache ?s1)) \<longrightarrow>
      (\<exists>e. value_supplier ?s1 (supplier_calls ?s1) = Inl e \<and> is_Exception e)"
    using assms(5) final by (auto simp: r2)
  then have s2: "x = None" "cached_value s2 = Some r"
    using refresh_cache_allow [of ?s1] assms(1,2) by (simp_all add: r2)
  obtain b s3 where b: "should_initiate_cache_prefetch (Some r) s2 = (b, s3)"
    by (cases "should_initiate_cache_prefetch (Some r) s2")
  have s3: "s3 = s2 \<or> s3 = s2\<lparr>clock_calls := Suc (clock_calls s2)\<rparr>"
    using should_initiate_cache_prefetch_state [of "Some r" s2] by (simp add: b)
  have g: "get s =
      (if b then (case prefetch_dispatch s3 of
                    (Some e, s4) \<Rightarrow> (Inl e, s4)
                  | (None, s4) \<Rightarrow> (Inr (rvalue r), s4))
       else (Inr (rvalue r), s3))"
    by (simp add: get_def Let_def assms(2) stale r2 s2 b)
  show ?thesis
  proof (cases b)
    case False
    then show ?thesis using s3 s2 by (auto simp: g)
  next
    case True
    then have "prefetch_time r \<noteq> None"
      using b by (auto simp: should_initiate_cache_prefetch_def split: option.splits)
    with assms(6) have strat: "prefetch_strategy s3 \<noteq> None"
      using s3 frame2 by auto
    have frame3: "stale_value_behavior s3 = ALLOW" "value_supplier s3 = value_supplier s"
      "cached_value s3 = Some r" "supplier_calls s3 = supplier_calls s2"
      using s3 s2 frame2 by auto
    have end_state: "snd (get s) = snd (prefetch_dispatch s3)"
      using True by (cases "prefetch_dispatch s3"; cases "fst (prefetch_dispatch s3)")
        (auto simp: g)
    from strat
    have "fst (prefetch_dispatch s3) = None \<and> cached_value (snd (prefetch_dispatch s3)) = Some r"
    proof (cases rule: prefetch_dispatch_cases [of s3])
      case skipped
      then show ?thesis by (simp add: frame3)
    next
      case ran
      let ?s3 = "s3\<lparr>currently_refreshing := True\<rparr>"
      have "supplier_calls ?s3 < supplier_calls (snd (refresh_cache ?s3)) \<longrightarrow>
          (\<exists>e. value_supplier ?s3 (supplier_calls ?s3) = Inl e \<and> is_Exception e)"
        using assms(5) frame2(4) frame3 ran(2) end_state by auto
      then show ?thesis
        using refresh_cache_allow [of ?s3] ran frame3 by simp
    qed
    then show ?thesis
      using True by (cases "prefetch_dispatch s3") (simp add: g)
  qed
qed

theorem get_allow_failure_witness:
  "stale_value_behavior (stale_supplier ALLOW (Some OneCallerBlocksPrefetchStrategy)) = ALLOW \<and>
   cached_value (stale_supplier ALLOW (Some OneCallerBlocksPrefetchStrategy)) = Some old_snapshot \<and>
   stale_time old_snapshot = Some 10000000 \<and>
   10000000 < clock (stale_supplier ALLOW (Some OneCallerBlocksPrefetchStrategy))
                (clock_calls (stale_supplier ALLOW (Some OneCallerBlocksPrefetchStrategy))) \<and>
   supplier_calls (stale_supplier ALLOW (Some OneCallerBlocksPrefetchStrategy)) = 0 \<and>
   supplier_calls (snd (get (stale_supplier ALLOW (Some OneCallerBlocksPrefetchStrategy)))) = 2 \<and>
   value_supplier (stale_supplier ALLOW (Some OneCallerBlocksPrefetchStrategy)) 0
     = Inl (Raised ''Refresh failed'') \<and>
   value_supplier (stale_supplier ALLOW (Some OneCallerBlocksPrefetchStrategy)) 1
     = Inl (Raised ''Refresh failed'') \<and>
   is_Exception (Raised ''Refresh failed'') \<and>
   prefetch_strategy (stale_supplier ALLOW (Some OneCallerBlocksPrefetchStrategy)) \<noteq> None \<and>
   fst (get (stale_supplier ALLOW (Some OneCallerBlocksPrefetchStrategy))) = Inr ''old_value'' \<and>
   cached_value (snd (get (stale_supplier ALLOW (Some OneCallerBlocksPrefetchStrategy))))
     = Some old_snapshot"
proof -
  have calls: "supplier_calls
      (snd (get (stale_supplier ALLOW (Some OneCallerBlocksPrefetchStrategy)))) = 2"
    by (simp add: fixture_defs supplier_defs OneCallerBlocks_prefetch_def log_record_def)
  show ?thesis
    using get_allow_failure
      [of "stale_supplier ALLOW (Some OneCallerBlocksPrefetchStrategy)" old_snapshot 10000000]
    by (simp add: calls)
       (simp add: stale_supplier_def supplier_init_def old_snapshot_def late_clock_def
          failing_supplier_def)
qed

text \<open>
  Three suppliers under \<^verbatim>\<open>ALLOW\<close> that hold the stale snapshot, past its prefetch time
  as well.  Built without a prefetch strategy, with the failing producer: \<^verbatim>\<open>get\<close> raises
  \<^verbatim>\<open>AttributeError\<close>.  With the blocking strategy and a producer that raises on its first
  call and returns on its second: \<^verbatim>\<open>get\<close> returns the old value, and the cached snapshot
  has been replaced by the new one.  With a producer that raises \<^verbatim>\<open>KeyboardInterrupt\<close>:
  \<^verbatim>\<open>get\<close> raises it.
\<close>

theorem get_allow_failure_counterexample:
  "stale_value_behavior (stale_supplier ALLOW None) = ALLOW \<and>
   cached_value (stale_supplier ALLOW None) = Some old_snapshot \<and>
   fst (get (stale_supplier ALLOW None)) = Inl AttributeError \<and>
   fst (get ((stale_supplier ALLOW (Some OneCallerBlocksPrefetchStrategy))
      \<lparr>value_supplier := flaky_supplier\<rparr>)) = Inr ''old_value'' \<and>
   cached_value (snd (get ((stale_supplier ALLOW (Some OneCallerBlocksPrefetchStrategy))
      \<lparr>value_supplier := flaky_supplier\<rparr>)))
     = Some \<lparr>rvalue = ''new_value'', stale_time = Some 4050000000, prefetch_time = None\<rparr> \<and>
   fst (get ((stale_supplier ALLOW (Some OneCallerBlocksPrefetchStrategy))
      \<lparr>value_supplier := interrupted_supplier\<rparr>)) = Inl KeyboardInterrupt"
  by (simp add: fixture_defs supplier_defs OneCallerBlocks_prefetch_def log_record_def)

subsection \<open>ConcurrentOperationException\<close>

text \<open>
  Whether handling a returned value raises depends on the jitter settings and the random
  source only, not on the lock or the count of producer calls.
\<close>

lemma jitter_time_other_fields:
  "jitter_time T (s\<lparr>refresh_lock := a, supplier_calls := b\<rparr>) =
     (case jitter_time T s of (x, s') \<Rightarrow> (x, s'\<lparr>refresh_lock := a, supplier_calls := b\<rparr>))"
  by (simp add: jitter_time_def Let_def split: sum.splits)

lemma jitter_optional_other_fields:
  "jitter_optional time (s\<lparr>refresh_lock := a, supplier_calls := b\<rparr>) =
     (case jitter_optional time s of (x, s') \<Rightarrow> (x, s'\<lparr>refresh_lock := a, supplier_calls := b\<rparr>))"
  by (simp add: jitter_optional_def jitter_time_other_fields
      split: option.splits prod.splits sum.splits)

lemma handle_fetched_success_other_fields:
  "fst (handle_fetched_success rr (s\<lparr>refresh_lock := a, supplier_calls := b\<rparr>))
     = fst (handle_fetched_success rr s)"
  by (simp add: handle_fetched_success_def jitter_optional_other_fields
      split: prod.splits sum.splits)

lemma get_with_snapshot_not_concurrent:
  assumes "cached_value s = Some r"
  shows "fst (get s) \<noteq> Inl ConcurrentOperationException"
proof -
  obtain st s1 where st: "cache_is_stale (Some r) s = (st, s1)"
    by (cases "cache_is_stale (Some r) s")
  have c1: "cached_value s1 = Some r"
    using st assms by (auto simp: cache_is_stale_def call_clock_def split: option.splits)
  show ?thesis
  proof (cases st)
    case False
    then show ?thesis
      using get_tail_not_concurrent [of r s1] by (simp add: get_def Let_def assms st)
  next
    case True
    obtain x s2 where x: "refresh_cache s1 = (x, s2)"
      by (cases "refresh_cache s1")
    have nc: "x \<noteq> Some ConcurrentOperationException"
      using refresh_cache_not_concurrent [of s1] by (simp add: x)
    obtain v where v: "cached_value s2 = Some v"
      using refresh_cache_keeps_snapshot [of s1] c1 by (auto simp: x)
    show ?thesis
      using True nc get_tail_not_concurrent [of v s2]
      by (cases x) (simp_all add: get_def Let_def assms st x v)
  qed
qed

lemma get_without_snapshot:
  assumes "cached_value s = None"
  shows "fst (get s) = Inl ConcurrentOperationException \<longleftrightarrow>
         refresh_lock s \<or>
         (stale_value_behavior s = ALLOW \<and>
          ((\<exists>e. value_supplier s (supplier_calls s) = Inl e \<and> is_Exception e) \<or>
           (\<exists>rr. value_supplier s (supplier_calls s) = Inr rr \<and>
                 fst (handle_fetched_success rr s) \<noteq> None)))"
proof (cases "refresh_lock s")
  case True
  with assms show ?thesis
    by (simp add: get_def cache_is_stale_def refresh_cache_def log_record_def)
next
  case False
  show ?thesis
  proof (cases "value_supplier s (supplier_calls s)")
    case (Inl e)
    with False assms show ?thesis
      by (cases "stale_value_behavior s"; cases "is_Exception e")
         (auto simp: get_def cache_is_stale_def refresh_cache_def fetch_def
            call_value_supplier_def handle_fetch_failure_def log_record_def Let_def
            dest: is_Exception_concurrent)
  next
    case (Inr rr)
    let ?s' = "s\<lparr>refresh_lock := True, supplier_calls := Suc (supplier_calls s)\<rparr>"
    have same: "fst (handle_fetched_success rr ?s') = fst (handle_fetched_success rr s)"
      by (rule handle_fetched_success_other_fields)
    show ?thesis
    proof (cases rule: handle_fetched_success_cases [of rr ?s'])
      case (overflow n)
      then have "fst (handle_fetched_success rr s) = Some OverflowError"
        using same by simp
      with False assms Inr overflow show ?thesis
        by (cases "stale_value_behavior s")
           (simp_all add: get_def cache_is_stale_def refresh_cache_def fetch_def
              call_value_supplier_def handle_fetch_failure_def log_record_def Let_def)
    next
      case (installed n v)
      then have none: "fst (handle_fetched_success rr s) = None"
        using same by simp
      let ?s2 = "?s'\<lparr>random_calls := n, cached_value := Some v, refresh_lock := False\<rparr>"
      have "fst (get s) \<noteq> Inl ConcurrentOperationException"
        using False assms Inr installed get_tail_not_concurrent [of v ?s2]
        by (simp add: get_def cache_is_stale_def refresh_cache_def fetch_def
            call_value_supplier_def Let_def)
      with False Inr none show ?thesis by simp
    qed
  qed
qed

text \<open>
  C6, as the code has it.  \<^verbatim>\<open>get\<close> raises \<^verbatim>\<open>ConcurrentOperationException\<close> exactly when
  no snapshot is cached at entry and the refresh attempt returns normally without
  installing one: the lock wait timed out (under either policy), or the policy is
  \<^verbatim>\<open>ALLOW\<close> and the fetch failed with an instance of \<^verbatim>\<open>Exception\<close>, which is when the
  producer raised one, or returned a value and jittering its times raised
  \<^verbatim>\<open>OverflowError\<close>.  A fetch that fails under \<^verbatim>\<open>STRICT\<close> gives \<^verbatim>\<open>CacheException\<close> instead,
  and an exception that is not an instance of \<^verbatim>\<open>Exception\<close> leaves \<^verbatim>\<open>get\<close> as it is.
  Whenever a snapshot is cached, \<^verbatim>\<open>get\<close> does not raise \<^verbatim>\<open>ConcurrentOperationException\<close>.
\<close>

theorem get_concurrent_operation_exception:
  "(fst (get s) = Inl ConcurrentOperationException \<longleftrightarrow>
      cached_value s = None \<and>
      (refresh_lock s \<or>
       (stale_value_behavior s = ALLOW \<and>
        ((\<exists>e. value_supplier s (supplier_calls s) = Inl e \<and> is_Exception e) \<or>
         (\<exists>rr. value_supplier s (supplier_calls s) = Inr rr \<and>
               fst (handle_fetched_success rr s) \<noteq> None))))) \<and>
   (cached_value s \<noteq> None \<longrightarrow> fst (get s) \<noteq> Inl ConcurrentOperationException)"
proof (cases "cached_value s")
  case None
  then show ?thesis using get_without_snapshot [of s] by simp
next
  case (Some r)
  then show ?thesis using get_with_snapshot_not_concurrent [of s r] by simp
qed

theorem get_concurrent_operation_exception_witness:
  "cached_value (supplier_init idle_process failing_supplier
      (Some OneCallerBlocksPrefetchStrategy) None ALLOW) = None \<and>
   fst (get (supplier_init idle_process failing_supplier
      (Some OneCallerBlocksPrefetchStrategy) None ALLOW)) = Inl ConcurrentOperationException \<and>
   fst (handle_fetched_success
          \<lparr>rvalue = ''v'', stale_time = Some DATETIME_MAX, prefetch_time = None\<rparr>
          (supplier_init idle_process far_supplier
             (Some OneCallerBlocksPrefetchStrategy) None ALLOW)) = Some OverflowError \<and>
   fst (get (supplier_init idle_process far_supplier
      (Some OneCallerBlocksPrefetchStrategy) None ALLOW)) = Inl ConcurrentOperationException \<and>
   fst (get (supplier_init idle_process interrupted_supplier
      (Some OneCallerBlocksPrefetchStrategy) None ALLOW)) \<noteq> Inl ConcurrentOperationException \<and>
   cached_value (stale_supplier ALLOW (Some OneCallerBlocksPrefetchStrategy)) \<noteq> None \<and>
   fst (get (stale_supplier ALLOW (Some OneCallerBlocksPrefetchStrategy)))
     \<noteq> Inl ConcurrentOperationException"
  using get_concurrent_operation_exception
    [of "supplier_init idle_process failing_supplier
           (Some OneCallerBlocksPrefetchStrategy) None ALLOW"]
    get_concurrent_operation_exception
    [of "supplier_init idle_process far_supplier
           (Some OneCallerBlocksPrefetchStrategy) None ALLOW"]
    get_concurrent_operation_exception
    [of "supplier_init idle_process interrupted_supplier
           (Some OneCallerBlocksPrefetchStrategy) None ALLOW"]
    get_concurrent_operation_exception
    [of "stale_supplier ALLOW (Some OneCallerBlocksPrefetchStrategy)"]
  by (simp add: fixture_defs handle_fetched_success_def jitter_optional_def jitter_time_def
      total_seconds_def datetime_defs)

text \<open>
  First call, policy \<^verbatim>\<open>STRICT\<close>, the producer raises: the snapshot is still unset after
  the refresh attempt, and \<^verbatim>\<open>get\<close> raises \<^verbatim>\<open>CacheException\<close>, not
  \<^verbatim>\<open>ConcurrentOperationException\<close>.
\<close>

theorem get_concurrent_operation_exception_counterexample:
  "cached_value (snd (get (supplier_init idle_process failing_supplier
      (Some OneCallerBlocksPrefetchStrategy) None STRICT))) = None \<and>
   fst (get (supplier_init idle_process failing_supplier
      (Some OneCallerBlocksPrefetchStrategy) None STRICT))
     = Inl (CacheException (Raised ''Refresh failed''))"
  by (simp add: fixture_defs supplier_defs)

subsection \<open>The prefetch path of get\<close>

text \<open>
  C1, as the code has it.  A snapshot that is not stale when \<^verbatim>\<open>get\<close> checks it and past
  its prefetch time at the next reading of the clock, with the blocking strategy (the
  scenario of the specification at 6 s): \<^verbatim>\<open>get\<close> hands the refresh routine to the
  strategy, which runs it on the calling thread before \<^verbatim>\<open>get\<close> returns.  What \<^verbatim>\<open>get\<close>
  then returns is the value of the snapshot it read at entry, whatever the refresh routine
  did to the cache: \<^verbatim>\<open>get\<close> does not read the cache again.  Only an exception out of the
  refresh routine changes the outcome; \<^verbatim>\<open>get\<close> raises it.
\<close>

theorem get_prefetch_blocking_returns_snapshot:
  assumes "cached_value s = Some r"
    and "stale_time r = Some st" and "prefetch_time r = Some pt"
    and "clock s (clock_calls s) \<le> st"
    and "pt < clock s (Suc (clock_calls s))"
    and "prefetch_strategy s = Some OneCallerBlocksPrefetchStrategy"
  shows "fst (get s) =
           (case fst (OneCallerBlocks_prefetch refresh_cache
                        (s\<lparr>clock_calls := Suc (Suc (clock_calls s))\<rparr>)) of
              None \<Rightarrow> Inr (rvalue r)
            | Some e \<Rightarrow> Inl e) \<and>
         snd (get s) =
           snd (OneCallerBlocks_prefetch refresh_cache
                  (s\<lparr>clock_calls := Suc (Suc (clock_calls s))\<rparr>))"
proof -
  let ?s2 = "s\<lparr>clock_calls := Suc (Suc (clock_calls s))\<rparr>"
  have stale: "cache_is_stale (Some r) s = (False, s\<lparr>clock_calls := Suc (clock_calls s)\<rparr>)"
    using assms by (simp add: cache_is_stale_def call_clock_def not_less)
  have pre: "should_initiate_cache_prefetch (Some r) (s\<lparr>clock_calls := Suc (clock_calls s)\<rparr>)
      = (True, ?s2)"
    using assms by (simp add: should_initiate_cache_prefetch_def call_clock_def)
  have disp: "prefetch_dispatch ?s2 = OneCallerBlocks_prefetch refresh_cache ?s2"
    using assms(6) by (simp add: prefetch_dispatch_def)
  show ?thesis
    by (cases "OneCallerBlocks_prefetch refresh_cache ?s2";
        cases "fst (OneCallerBlocks_prefetch refresh_cache ?s2)")
       (auto simp: get_def Let_def assms(1) stale pre disp)
qed

text \<open>
  The second \<^verbatim>\<open>get\<close> of the scenario with the clock that moves on: the snapshot \<open>v1\<close> is
  not stale at the first check (6 s) and past its prefetch time at the second; the refresh
  routine, reading 11 s, calls the producer and installs \<open>v2\<close>; \<^verbatim>\<open>get\<close> returns \<open>v1\<close>.
\<close>

theorem get_prefetch_blocking_returns_snapshot_witness:
  "cached_value (snd (get advancing_supplier))
     = Some \<lparr>rvalue = ''v1'', stale_time = Some 10000000, prefetch_time = Some 5000000\<rparr> \<and>
   clock_calls (snd (get advancing_supplier)) = 1 \<and>
   clock (snd (get advancing_supplier)) 1 \<le> 10000000 \<and>
   5000000 < clock (snd (get advancing_supplier)) 2 \<and>
   prefetch_strategy (snd (get advancing_supplier)) = Some OneCallerBlocksPrefetchStrategy \<and>
   fst (get (snd (get advancing_supplier))) = Inr ''v1'' \<and>
   supplier_calls (snd (get (snd (get advancing_supplier)))) = 2 \<and>
   cached_value (snd (get (snd (get advancing_supplier))))
     = Some \<lparr>rvalue = ''v2'', stale_time = Some 20000000, prefetch_time = Some 15000000\<rparr>"
proof -
  have first: "get advancing_supplier =
      (Inr ''v1'',
       advancing_supplier
         \<lparr>refresh_lock := True, supplier_calls := 1,
          cached_value :=
            Some \<lparr>rvalue = ''v1'', stale_time = Some 10000000, prefetch_time = Some 5000000\<rparr>,
          refresh_lock := False, clock_calls := 1\<rparr>)"
    by (simp add: fixture_defs supplier_defs)
  have fields: "clock advancing_supplier = advancing_clock"
    "prefetch_strategy advancing_supplier = Some OneCallerBlocksPrefetchStrategy"
    by (simp_all add: advancing_supplier_def supplier_init_def)
  have run: "OneCallerBlocks_prefetch refresh_cache
      ((snd (get advancing_supplier))\<lparr>clock_calls := Suc (Suc 1)\<rparr>) =
      (None,
       advancing_supplier
         \<lparr>supplier_calls := 2,
          cached_value :=
            Some \<lparr>rvalue = ''v2'', stale_time = Some 20000000, prefetch_time = Some 15000000\<rparr>,
          refresh_lock := False, clock_calls := 4, currently_refreshing := False\<rparr>)"
    by (simp add: first)
       (simp add: fixture_defs supplier_defs OneCallerBlocks_prefetch_def)
  show ?thesis
    using get_prefetch_blocking_returns_snapshot
      [of "snd (get advancing_supplier)"
          "\<lparr>rvalue = ''v1'', stale_time = Some 10000000, prefetch_time = Some 5000000\<rparr>"
          10000000 5000000]
    by (simp add: first fields advancing_clock_def)
       (simp add: run [simplified first, simplified])
qed

text \<open>
  The scenario run from the constructor with the clock at 6 s throughout the second
  \<^verbatim>\<open>get\<close>: the first \<^verbatim>\<open>get\<close>, at 0 s, installs \<open>v1\<close> with stale time 10 s and prefetch time
  5 s.  The second returns \<open>v1\<close>; the producer has been called once in all, and the cached
  value is still \<open>v1\<close>: the refresh routine, run by the prefetch, found the snapshot not
  stale and returned without calling the producer.
\<close>

theorem get_prefetch_blocking_counterexample:
  "cached_value (snd (get (scenario_supplier (Some OneCallerBlocksPrefetchStrategy))))
     = Some \<lparr>rvalue = ''v1'', stale_time = Some 10000000, prefetch_time = Some 5000000\<rparr> \<and>
   fst (get (snd (get (scenario_supplier (Some OneCallerBlocksPrefetchStrategy))))) = Inr ''v1'' \<and>
   supplier_calls (snd (get (snd (get (scenario_supplier (Some OneCallerBlocksPrefetchStrategy))))))
     = 1 \<and>
   cached_value (snd (get (snd (get (scenario_supplier (Some OneCallerBlocksPrefetchStrategy))))))
     = Some \<lparr>rvalue = ''v1'', stale_time = Some 10000000, prefetch_time = Some 5000000\<rparr>"
  by (simp add: fixture_defs supplier_defs OneCallerBlocks_prefetch_def)



end
